theory Spec2Isabelle
  imports Complex_Main
begin

section \<open>Errors\<close>

text \<open>
  The exceptions the two source files can raise, as values. A function that can raise
  returns \<open>error + 'a\<close>, with \<open>Inl\<close> for the exception. \<open>ConfigError\<close> is the error
  that the specification names for lists of different lengths; no line of the source
  raises it, and it is listed so that this can be stated.
\<close>

datatype error =
  ValueError | IndexError | KeyError | ParserError | AttributeError | FileNotFoundError
  | ConfigError

section \<open>The pricer (\<open>utils.py\<close>, \<open>bsm_option_price\<close>)\<close>

text \<open>
  Floats are modelled by the reals: rounding is not modelled. \<open>scipy.stats.norm.cdf\<close>
  is the standard normal distribution function, given here by its Maclaurin series
  \<open>1/2 + (1 / sqrt (2 pi)) * (\<Sum>n. (-1)^n x^(2n+1) / (2^n n! (2n+1)))\<close>.
\<close>

definition norm_cdf_term :: "real \<Rightarrow> nat \<Rightarrow> real" where
  "norm_cdf_term x n = (- 1) ^ n * x ^ (2 * n + 1) / (2 ^ n * fact n * real (2 * n + 1))"

definition norm_cdf :: "real \<Rightarrow> real" where
  "norm_cdf x = 1 / 2 + (\<Sum>n. norm_cdf_term x n) / sqrt (2 * pi)"

text \<open>
  \<open>option_type\<close> is the numeric code the pipeline passes (column \<open>opt\<close>): the source
  compares it with \<open>0\<close> and \<open>1\<close> and raises \<open>ValueError\<close> otherwise.
\<close>

definition bsm_option_price :: "int \<Rightarrow> real \<Rightarrow> real \<Rightarrow> real \<Rightarrow> real \<Rightarrow> real \<Rightarrow> error + real" where
  "bsm_option_price option_type S0 K T sigma rf =
     (let d1 = (ln (S0 / K) + (rf + 0.5 * sigma\<^sup>2) * T) / (sigma * sqrt T);
          d2 = d1 - sigma * sqrt T
      in if option_type = 0 then
           Inr (S0 * norm_cdf d1 - K * exp (- rf * T) * norm_cdf d2)
         else if option_type = 1 then
           Inr (K * exp (- rf * T) * norm_cdf (- d2) - S0 * norm_cdf (- d1))
         else Inl ValueError)"

subsection \<open>The closed form of the specification\<close>

text \<open>
  The specification's own wording of the pricer (section 4.1), over the two-valued option
  kind, for comparison with the source's function. \<open>kind_code\<close> is the numeric code under
  which the pipeline hands a kind to the pricer.
\<close>

datatype option_kind = CALL | PUT

fun kind_code :: "option_kind \<Rightarrow> int" where
  "kind_code CALL = 0"
| "kind_code PUT = 1"

definition spec_d1 :: "real \<Rightarrow> real \<Rightarrow> real \<Rightarrow> real \<Rightarrow> real \<Rightarrow> real" where
  "spec_d1 S0 K T sigma r = (ln (S0 / K) + (r + 0.5 * sigma\<^sup>2) * T) / (sigma * sqrt T)"

definition spec_d2 :: "real \<Rightarrow> real \<Rightarrow> real \<Rightarrow> real \<Rightarrow> real \<Rightarrow> real" where
  "spec_d2 S0 K T sigma r = spec_d1 S0 K T sigma r - sigma * sqrt T"

fun spec_price :: "option_kind \<Rightarrow> real \<Rightarrow> real \<Rightarrow> real \<Rightarrow> real \<Rightarrow> real \<Rightarrow> real" where
  "spec_price CALL S0 K T sigma r =
     S0 * norm_cdf (spec_d1 S0 K T sigma r) - K * exp (- r * T) * norm_cdf (spec_d2 S0 K T sigma r)"
| "spec_price PUT S0 K T sigma r =
     K * exp (- r * T) * norm_cdf (- spec_d2 S0 K T sigma r) - S0 * norm_cdf (- spec_d1 S0 K T sigma r)"

section \<open>Floating-point values of the metrics engine\<close>

text \<open>
  The metrics engine divides by values that can be zero, and numpy then yields an infinity
  or a NaN instead of raising. Its numbers are therefore modelled as reals extended by the
  two infinities and NaN, with the IEEE rules for the exceptional cases. Rounding, overflow
  and the sign of zero are not modelled: a zero divisor counts as \<open>+0\<close>.
\<close>

datatype fval = Fin real | PInf | NInf | NaN

fun fneg :: "fval \<Rightarrow> fval" where
  "fneg (Fin a) = Fin (- a)"
| "fneg PInf = NInf"
| "fneg NInf = PInf"
| "fneg NaN = NaN"

fun fadd :: "fval \<Rightarrow> fval \<Rightarrow> fval" where
  "fadd (Fin a) (Fin b) = Fin (a + b)"
| "fadd NaN y = NaN"
| "fadd x NaN = NaN"
| "fadd PInf NInf = NaN"
| "fadd NInf PInf = NaN"
| "fadd PInf y = PInf"
| "fadd x PInf = PInf"
| "fadd NInf y = NInf"
| "fadd x NInf = NInf"

definition fsub :: "fval \<Rightarrow> fval \<Rightarrow> fval" where
  "fsub x y = fadd x (fneg y)"

fun fmul :: "fval \<Rightarrow> fval \<Rightarrow> fval" where
  "fmul (Fin a) (Fin b) = Fin (a * b)"
| "fmul NaN y = NaN"
| "fmul x NaN = NaN"
| "fmul (Fin a) PInf = (if a = 0 then NaN else if 0 < a then PInf else NInf)"
| "fmul (Fin a) NInf = (if a = 0 then NaN else if 0 < a then NInf else PInf)"
| "fmul PInf (Fin b) = (if b = 0 then NaN else if 0 < b then PInf else NInf)"
| "fmul NInf (Fin b) = (if b = 0 then NaN else if 0 < b then NInf else PInf)"
| "fmul PInf PInf = PInf"
| "fmul PInf NInf = NInf"
| "fmul NInf PInf = NInf"
| "fmul NInf NInf = PInf"

fun fdiv :: "fval \<Rightarrow> fval \<Rightarrow> fval" where
  "fdiv (Fin a) (Fin b) =
     (if b \<noteq> 0 then Fin (a / b) else if a = 0 then NaN else if 0 < a then PInf else NInf)"
| "fdiv NaN y = NaN"
| "fdiv x NaN = NaN"
| "fdiv (Fin a) y = Fin 0"
| "fdiv PInf (Fin b) = (if 0 \<le> b then PInf else NInf)"
| "fdiv NInf (Fin b) = (if 0 \<le> b then NInf else PInf)"
| "fdiv x y = NaN"

text \<open>The comparison \<open>x < y\<close> of floats: false as soon as one side is NaN.\<close>

fun fless :: "fval \<Rightarrow> fval \<Rightarrow> bool" where
  "fless (Fin a) (Fin b) = (a < b)"
| "fless NaN y = False"
| "fless x NaN = False"
| "fless x NInf = False"
| "fless PInf y = False"
| "fless x y = True"

text \<open>
  \<open>x ** y\<close> for a float \<open>x\<close> and a finite exponent \<open>y\<close> (numpy's power): a negative
  base has a power only for an integer exponent.
\<close>

fun fpow :: "fval \<Rightarrow> real \<Rightarrow> fval" where
  "fpow (Fin a) y =
     (if 0 < a then Fin (a powr y)
      else if a = 0 then (if 0 < y then Fin 0 else if y = 0 then Fin 1 else PInf)
      else if y = of_int \<lfloor>y\<rfloor> then Fin (a powi \<lfloor>y\<rfloor>)
      else NaN)"
| "fpow PInf y = (if 0 < y then PInf else if y = 0 then Fin 1 else Fin 0)"
| "fpow NInf y =
     (if y = 0 then Fin 1
      else if y < 0 then Fin 0
      else if y = of_int \<lfloor>y\<rfloor> \<and> odd \<lfloor>y\<rfloor> then NInf else PInf)"
| "fpow NaN y = (if y = 0 then Fin 1 else NaN)"

fun fsqrt :: "fval \<Rightarrow> fval" where
  "fsqrt (Fin a) = (if a < 0 then NaN else Fin (sqrt a))"
| "fsqrt PInf = PInf"
| "fsqrt NInf = NaN"
| "fsqrt NaN = NaN"

section \<open>Series operations of pandas and numpy\<close>

text \<open>
  A series is the list of its (label, value) pairs in storage order. An index label is
  either a raw label of the caller's (type \<open>'d\<close>: a date string, an integer) or a
  timestamp, counted in nanoseconds since the epoch as pandas does.
\<close>

datatype 'd label = Raw 'd | Stamp int

type_synonym 'd series = "('d label \<times> fval) list"

definition ns_per_day :: int where
  "ns_per_day = 86400000000000"

definition day_of :: "int \<Rightarrow> int" where
  "day_of t = t div ns_per_day"

text \<open>
  \<open>pd.to_datetime\<close> on an index: a timestamp stays, a raw label is parsed by the library's
  parser \<open>parse\<close>, which fails on a label it cannot read. For integer labels the library
  reads the number as nanoseconds since the epoch, so \<open>parse = Some\<close>.
\<close>

fun to_datetime :: "('d \<Rightarrow> int option) \<Rightarrow> 'd label list \<Rightarrow> error + int list" where
  "to_datetime parse [] = Inr []"
| "to_datetime parse (Stamp t # ls) =
     (case to_datetime parse ls of Inl e \<Rightarrow> Inl e | Inr ts \<Rightarrow> Inr (t # ts))"
| "to_datetime parse (Raw d # ls) =
     (case parse d of
        None \<Rightarrow> Inl ParserError
      | Some t \<Rightarrow> (case to_datetime parse ls of Inl e \<Rightarrow> Inl e | Inr ts \<Rightarrow> Inr (t # ts)))"

text \<open>
  \<open>resample('1D').last().dropna()\<close>: the observations are ordered by time (a stable
  sort), each calendar day that has a value which is not NaN keeps the last such value,
  labelled by the start of the day, and the days come out in ascending order.
\<close>

definition resample_last_dropna :: "(int \<times> fval) list \<Rightarrow> (int \<times> fval) list" where
  "resample_last_dropna ser =
     (let obs = sort_key fst (filter (\<lambda>p. snd p \<noteq> NaN) ser);
          days = remdups_adj (map (\<lambda>p. day_of (fst p)) obs)
      in map (\<lambda>d. (d * ns_per_day, snd (last (filter (\<lambda>p. day_of (fst p) = d) obs)))) days)"

text \<open>\<open>pct_change\<close>: the first entry is missing, every later one is \<open>x[t] / x[t-1] - 1\<close>.\<close>

fun pct_change :: "fval list \<Rightarrow> fval list" where
  "pct_change [] = []"
| "pct_change (x # xs) = NaN # map2 (\<lambda>prev cur. fsub (fdiv cur prev) (Fin 1)) (x # xs) xs"

definition dropna :: "fval list \<Rightarrow> fval list" where
  "dropna xs = filter (\<lambda>x. x \<noteq> NaN) xs"

definition fillna :: "fval \<Rightarrow> fval list \<Rightarrow> fval list" where
  "fillna c xs = map (\<lambda>x. if x = NaN then c else x) xs"

text \<open>\<open>cumprod\<close> skips a missing entry: it stays missing and the product goes on.\<close>

fun cumprod_from :: "fval \<Rightarrow> fval list \<Rightarrow> fval list" where
  "cumprod_from acc [] = []"
| "cumprod_from acc (x # xs) =
     (if x = NaN then NaN # cumprod_from acc xs
      else fmul acc x # cumprod_from (fmul acc x) xs)"

definition cumprod :: "fval list \<Rightarrow> fval list" where
  "cumprod xs = cumprod_from (Fin 1) xs"

text \<open>\<open>np.maximum\<close> hands a NaN on; \<open>np.maximum.accumulate\<close> is its running form.\<close>

definition np_maximum :: "fval \<Rightarrow> fval \<Rightarrow> fval" where
  "np_maximum x y = (if x = NaN \<or> y = NaN then NaN else if fless x y then y else x)"

fun maximum_accumulate_from :: "fval \<Rightarrow> fval list \<Rightarrow> fval list" where
  "maximum_accumulate_from m [] = []"
| "maximum_accumulate_from m (x # xs) = np_maximum m x # maximum_accumulate_from (np_maximum m x) xs"

definition maximum_accumulate :: "fval list \<Rightarrow> fval list" where
  "maximum_accumulate xs = (case xs of [] \<Rightarrow> [] | x # r \<Rightarrow> x # maximum_accumulate_from x r)"

text \<open>
  \<open>expanding().max()\<close> ignores NaN: each entry is the largest value seen so far that is
  not NaN, and NaN while there is none.
\<close>

fun expanding_max_from :: "fval \<Rightarrow> fval list \<Rightarrow> fval list" where
  "expanding_max_from m [] = []"
| "expanding_max_from m (x # xs) =
     (let m' = (if x = NaN then m else if m = NaN \<or> fless m x then x else m)
      in m' # expanding_max_from m' xs)"

definition expanding_max :: "fval list \<Rightarrow> fval list" where
  "expanding_max xs = expanding_max_from NaN xs"

text \<open>
  Python's builtin \<open>max\<close> over the values: the first value, replaced by each later one
  that compares greater; \<open>ValueError\<close> on an empty sequence.
\<close>

fun py_max_from :: "fval \<Rightarrow> fval list \<Rightarrow> fval" where
  "py_max_from m [] = m"
| "py_max_from m (x # xs) = py_max_from (if fless m x then x else m) xs"

definition py_max :: "fval list \<Rightarrow> error + fval" where
  "py_max xs = (case xs of [] \<Rightarrow> Inl ValueError | x # r \<Rightarrow> Inr (py_max_from x r))"

text \<open>
  \<open>idxmax\<close>: the label of the first occurrence of the largest value that is not NaN. On
  an empty series it raises \<open>ValueError\<close>; when every value is NaN it yields no label
  (\<open>None\<close>), and the \<open>strftime\<close> that follows in the source then fails.
\<close>

fun idxmax_from :: "int \<times> fval \<Rightarrow> (int \<times> fval) list \<Rightarrow> int" where
  "idxmax_from best [] = fst best"
| "idxmax_from best (p # ps) = idxmax_from (if fless (snd best) (snd p) then p else best) ps"

definition idxmax :: "(int \<times> fval) list \<Rightarrow> error + int option" where
  "idxmax ser =
     (if ser = [] then Inl ValueError
      else case filter (\<lambda>p. snd p \<noteq> NaN) ser of
             [] \<Rightarrow> Inr None
           | p # ps \<Rightarrow> Inr (Some (idxmax_from p ps)))"

text \<open>
  \<open>std\<close>: the sample standard deviation (one degree of freedom removed) of the values
  that are not NaN, and NaN for fewer than two of them.
\<close>

definition fsum :: "fval list \<Rightarrow> fval" where
  "fsum xs = foldl fadd (Fin 0) xs"

definition std :: "fval list \<Rightarrow> fval" where
  "std xs =
     (let vs = dropna xs; n = length vs
      in if n < 2 then NaN
         else let avg = fdiv (fsum vs) (Fin (real n));
                  sqr = map (\<lambda>v. fmul (fsub avg v) (fsub avg v)) vs
              in fsqrt (fdiv (fsum sqr) (Fin (real n - 1))))"

section \<open>The metrics engine (\<open>utils.py\<close>, \<open>get_backtest_info\<close>)\<close>

text \<open>
  The report holds the eight entries of the result series as lines 58 to 78 compute them.
  The two dates are kept as the timestamps of their days, and the presentation step of
  lines 81 to 86, which replaces six numbers by their text, is not modelled.
\<close>

record report =
  total_return :: fval
  annualized_return :: fval
  annualized_volatility :: fval
  maximum_drawdown :: fval
  sharpe_ratio :: fval
  calmar_ratio :: fval
  maximum_drawdown_start_date :: int
  maximum_drawdown_end_date :: int

text \<open>Line 52: \<open>(pct_change().fillna(0) + 0).cumprod()\<close>.\<close>

definition cum_ret_ser :: "fval list \<Rightarrow> fval list" where
  "cum_ret_ser vs = cumprod (map (\<lambda>r. fadd r (Fin 0)) (fillna (Fin 0) (pct_change vs)))"

text \<open>Line 67: the drawdown of every day against the running maximum.\<close>

definition drawdowns :: "fval list \<Rightarrow> fval list" where
  "drawdowns cum = map2 (\<lambda>m c. fdiv (fsub m c) m) (maximum_accumulate cum) cum"

text \<open>
  Lines 46 to 78, on the series with its index already converted. \<open>iloc[-1]\<close> raises
  \<open>IndexError\<close> on an empty series.
\<close>

definition metrics :: "(int \<times> fval) list \<Rightarrow> error + report" where
  "metrics ser0 =
     (let ser = resample_last_dropna ser0;
          idx = map fst ser;
          ret_ser = dropna (pct_change (map snd ser));
          cum = cum_ret_ser (map snd ser)
      in if cum = [] then Inl IndexError
         else
           let total = fsub (last cum) (Fin 1);
               ann = fsub (fpow (last cum) (252 / real (length cum))) (Fin 1);
               vol = fmul (std ret_ser) (Fin (sqrt 252))
           in case py_max (drawdowns cum) of
                Inl e \<Rightarrow> Inl e
              | Inr mdd \<Rightarrow>
                  (case idxmax (zip idx (map2 fsub (expanding_max cum) cum)) of
                     Inl e \<Rightarrow> Inl e
                   | Inr None \<Rightarrow> Inl AttributeError
                   | Inr (Some end_day) \<Rightarrow>
                       (case idxmax (filter (\<lambda>p. fst p \<le> end_day) (zip idx cum)) of
                          Inl e \<Rightarrow> Inl e
                        | Inr None \<Rightarrow> Inl AttributeError
                        | Inr (Some start_day) \<Rightarrow>
                            Inr \<lparr>total_return = total,
                                 annualized_return = ann,
                                 annualized_volatility = vol,
                                 maximum_drawdown = mdd,
                                 sharpe_ratio = fdiv ann vol,
                                 calmar_ratio = fdiv ann mdd,
                                 maximum_drawdown_start_date = start_day,
                                 maximum_drawdown_end_date = end_day\<rparr>)))"

text \<open>
  The whole function. Line 45 assigns the converted index to the caller's series object,
  so the function returns the caller's series as the call leaves it, next to its result.
  When the conversion raises, nothing has been assigned.
\<close>

definition get_backtest_info :: "('d \<Rightarrow> int option) \<Rightarrow> 'd series \<Rightarrow> 'd series \<times> (error + report)" where
  "get_backtest_info parse portfolio_value_ser =
     (case to_datetime parse (map fst portfolio_value_ser) of
        Inl e \<Rightarrow> (portfolio_value_ser, Inl e)
      | Inr ts \<Rightarrow>
          (zip (map Stamp ts) (map snd portfolio_value_ser),
           metrics (zip ts (map snd portfolio_value_ser))))"

section \<open>Data preparation (\<open>utils.py\<close>, \<open>prepare_data\<close>)\<close>

text \<open>
  Lines 104 to 108 read the rate file and join the options table, one volatility column
  and the rate column on their date index; the result is a table with the eleven columns
  that line 108 names. A row of it is a \<open>merged_row\<close>: \<open>row_index\<close> is its date label,
  \<open>col_ret\<close> is \<open>None\<close> where the return is missing (NaN), and the other numeric cells
  are reals.
\<close>

record 'd merged_row =
  row_index :: 'd
  col_code :: string
  col_close :: real
  col_exercise_date :: string
  col_K :: real
  col_opt_type :: string
  col_T_days :: real
  col_T :: real
  col_ret :: "real option"
  col_S0 :: real
  col_sigma :: real
  col_rf :: real

text \<open>
  A row as \<open>prepare_data\<close> yields it (lines 109 to 113): \<open>sigma\<close> divided by 100, the
  numeric option code \<open>opt\<close>, the date as a column, and a return that is present.
\<close>

record 'd prepared_row =
  p_code :: string
  p_close :: real
  p_exercise_date :: string
  p_K :: real
  p_opt_type :: string
  p_T_days :: real
  p_T :: real
  p_ret :: real
  p_S0 :: real
  p_sigma :: real
  p_rf :: real
  p_opt :: int
  p_date :: 'd

definition prepare_row :: "'d merged_row \<Rightarrow> 'd prepared_row option" where
  "prepare_row r =
     (case col_ret r of
        None \<Rightarrow> None
      | Some x \<Rightarrow>
          Some \<lparr>p_code = col_code r,
                p_close = col_close r,
                p_exercise_date = col_exercise_date r,
                p_K = col_K r,
                p_opt_type = col_opt_type r,
                p_T_days = col_T_days r,
                p_T = col_T r,
                p_ret = x,
                p_S0 = col_S0 r,
                p_sigma = col_sigma r / 100,
                p_rf = col_rf r,
                p_opt = (if col_opt_type r = ''call'' then 0 else 1),
                p_date = row_index r\<rparr>)"

definition prepare_rows :: "'d merged_row list \<Rightarrow> 'd prepared_row list" where
  "prepare_rows rows = List.map_filter prepare_row rows"

text \<open>
  A table as \<open>read_csv\<close> and \<open>set_index\<close> make it of the rate file: the labels of its
  rows and its named columns of cells.
\<close>

record frame =
  frame_index :: "string list"
  frame_columns :: "(string \<times> real list) list"

text \<open>
  \<open>.loc[date_range]\<close> of line 104. \<open>date_range\<close> is a tuple, and \<open>.loc\<close> reads a tuple of
  two labels as a row label and a column label: it raises \<open>KeyError\<close> unless the table has
  such a row and such a column, and otherwise yields the cells under them.
\<close>

definition loc_pair :: "frame \<Rightarrow> string \<times> string \<Rightarrow> error + real list list" where
  "loc_pair df key =
     (if fst key \<in> set (frame_index df) \<and> snd key \<in> set (map fst (frame_columns df)) then
        Inr (map (\<lambda>col. map snd (filter (\<lambda>p. fst p = fst key) (zip (frame_index df) (snd col))))
               (filter (\<lambda>col. fst col = snd key) (frame_columns df)))
      else Inl KeyError)"

text \<open>
  The generator. Line 104 runs once, when the consumer asks for the first table, also when
  \<open>sigma\<close> is empty: \<open>shibor_file\<close> is the table read from the file of that name, or the
  exception of the read. Then there is one item per entry of \<open>sigma\<close>, in order, each
  produced when the consumer asks for it: \<open>merged shibor s\<close> stands for lines 106 to 108,
  the join of the options table (the arguments \<open>data\<close> and \<open>vix\<close>) with the volatility
  column \<open>s\<close> and with the rates, under the column names of line 108, or the exception
  that these lines raise.
\<close>

definition prepare_data ::
  "(real list list \<Rightarrow> string \<Rightarrow> error + 'd merged_row list) \<Rightarrow> string list
     \<Rightarrow> error + frame \<Rightarrow> string \<times> string
     \<Rightarrow> error + ((error + 'd prepared_row list) \<times> string) list" where
  "prepare_data merged sigma shibor_file date_range =
     (case shibor_file of
        Inl e \<Rightarrow> Inl e
      | Inr df \<Rightarrow>
          (case loc_pair df date_range of
             Inl e \<Rightarrow> Inl e
           | Inr shibor \<Rightarrow>
               Inr (map (\<lambda>s. (case merged shibor s of
                                Inl e \<Rightarrow> Inl e
                              | Inr rows \<Rightarrow> Inr (prepare_rows rows), s)) sigma)))"

section \<open>The backtest (\<open>option_pricing.py\<close>, \<open>get_backtest_result\<close>)\<close>

text \<open>A loop whose body can raise: the first exception ends it.\<close>

fun traverse :: "('a \<Rightarrow> error + 'b) \<Rightarrow> 'a list \<Rightarrow> error + 'b list" where
  "traverse f [] = Inr []"
| "traverse f (x # xs) =
     (case f x of
        Inl e \<Rightarrow> Inl e
      | Inr y \<Rightarrow> (case traverse f xs of Inl e \<Rightarrow> Inl e | Inr ys \<Rightarrow> Inr (y # ys)))"

text \<open>Lines 29 to 33: the price of every row; the rate column is in percent.\<close>

definition price_rows :: "'d prepared_row list \<Rightarrow> error + real list" where
  "price_rows prepared_data =
     traverse (\<lambda>r. bsm_option_price (p_opt r) (p_S0 r) (p_K r) (p_T r) (p_sigma r) (p_rf r / 100))
       prepared_data"

text \<open>
  \<open>thres[sigma.index(s)]\<close>: \<open>list.index\<close> is the first position of \<open>s\<close> (\<open>ValueError\<close>
  when absent), and indexing past the end of \<open>thres\<close> raises \<open>IndexError\<close>.
\<close>

fun index_of :: "'a \<Rightarrow> 'a list \<Rightarrow> nat option" where
  "index_of x [] = None"
| "index_of x (y # ys) =
     (if y = x then Some 0 else (case index_of x ys of None \<Rightarrow> None | Some i \<Rightarrow> Some (Suc i)))"

definition thres_of :: "string list \<Rightarrow> real list \<Rightarrow> string \<Rightarrow> error + real" where
  "thres_of sigma thres s =
     (case index_of s sigma of
        None \<Rightarrow> Inl ValueError
      | Some i \<Rightarrow> if i < length thres then Inr (thres ! i) else Inl IndexError)"

text \<open>
  The two bounds of the signal are compared with the price, and the rounding of a bound
  can change the signal, so here the float arithmetic is modelled: \<open>fl64 x\<close> is the
  float64 value nearest to the real \<open>x\<close>, a tie going to the even significand (53 bits,
  with the subnormal range; overflow to an infinity is not modelled). An operation on two
  floats yields the exact result rounded.
\<close>

definition round_half_even :: "real \<Rightarrow> int" where
  "round_half_even q =
     (let f = \<lfloor>q\<rfloor>
      in if q - of_int f < 1 / 2 then f
         else if 1 / 2 < q - of_int f then f + 1
         else if even f then f else f + 1)"

definition fl64 :: "real \<Rightarrow> real" where
  "fl64 x =
     (if x = 0 then 0
      else let e = max \<lfloor>log 2 \<bar>x\<bar>\<rfloor> (- 1022);
               ulp = 2 powi (e - 52)
           in of_int (round_half_even (x / ulp)) * ulp)"

text \<open>
  Lines 36 to 41, for one row: the signal starts at 0 and the two tests are tried in turn,
  each against the product as the floats compute it, \<open>(1 + th) * close\<close> and
  \<open>(1 - th) * close\<close>.
\<close>

definition signal_of :: "real \<Rightarrow> real \<Rightarrow> real \<Rightarrow> int" where
  "signal_of th price close =
     (if price > fl64 (fl64 (1 + th) * close) then 1
      else if price < fl64 (fl64 (1 - th) * close) then - 1
      else 0)"

definition signal_rows ::
  "string list \<Rightarrow> real list \<Rightarrow> string \<Rightarrow> 'd prepared_row list \<Rightarrow> real list \<Rightarrow> error + int list" where
  "signal_rows sigma thres s prepared_data prices =
     traverse (\<lambda>(r, price).
         case thres_of sigma thres s of
           Inl e \<Rightarrow> Inl e
         | Inr th \<Rightarrow> Inr (signal_of th price (p_close r)))
       (zip prepared_data prices)"

text \<open>
  Lines 44 and 45: the position return of every row, and its mean per date;
  \<open>groupby\<close> yields the dates in ascending order, each once.
\<close>

definition groupby_mean :: "('d::linorder \<times> real) list \<Rightarrow> ('d \<times> real) list" where
  "groupby_mean xs =
     map (\<lambda>d. (d, sum_list (map snd (filter (\<lambda>p. fst p = d) xs))
                  / real (length (filter (\<lambda>p. fst p = d) xs))))
       (sort (remdups (map fst xs)))"

definition daily_returns :: "('d::linorder) prepared_row list \<Rightarrow> int list \<Rightarrow> ('d \<times> real) list" where
  "daily_returns prepared_data signals =
     groupby_mean (zip (map p_date prepared_data)
                       (map2 (\<lambda>r sg. p_ret r * real_of_int sg) prepared_data signals))"

text \<open>Lines 46 and 47: \<open>((dd - commission).cumsum() + 1).shift(1).fillna(1)\<close>.\<close>

fun cumsum_from :: "real \<Rightarrow> real list \<Rightarrow> real list" where
  "cumsum_from acc [] = []"
| "cumsum_from acc (x # xs) = (acc + x) # cumsum_from (acc + x) xs"

definition cumsum :: "real list \<Rightarrow> real list" where
  "cumsum xs = cumsum_from 0 xs"

definition shift1 :: "fval list \<Rightarrow> fval list" where
  "shift1 xs = (if xs = [] then [] else NaN # butlast xs)"

definition cumulative_value :: "real \<Rightarrow> real list \<Rightarrow> fval list" where
  "cumulative_value commission dd =
     fillna (Fin 1) (shift1 (map (\<lambda>x. Fin (x + 1)) (cumsum (map (\<lambda>x. x - commission) dd))))"







section \<open>Example quotes\<close>

text \<open>
  Rows for the worked examples: the quote of the specification's scenario (underlying 100,
  strike 95, a tenth of a year to expiry, volatility 20 percent, rate 3 percent) on the
  date \<open>d\<close>, with the given option type, close and return. The dates are integers,
  which the library reads as nanoseconds since the epoch.
\<close>

definition merged_quote :: "int \<Rightarrow> string \<Rightarrow> real \<Rightarrow> real option \<Rightarrow> int merged_row" where
  "merged_quote d kind close ret =
     \<lparr>row_index = d, col_code = ''10000001'', col_close = close,
      col_exercise_date = ''2015-03-25'', col_K = 95, col_opt_type = kind, col_T_days = 36,
      col_T = 1 / 10, col_ret = ret, col_S0 = 100, col_sigma = 20, col_rf = 3\<rparr>"

definition three_quotes :: "int prepared_row list" where
  "three_quotes = prepare_rows
     [merged_quote 0 ''call'' 6 (Some (1 / 50)),
      merged_quote 0 ''put'' 2 (Some (- 1 / 25)),
      merged_quote 86400000000000 ''call'' 6 (Some (3 / 100))]"

text \<open>
  A rate table of two dates with the one column \<open>1\<close> that line 107 selects.
\<close>

definition rate_table :: frame where
  "rate_table =
     \<lparr>frame_index = [''2015-02-09'', ''2015-02-10''], frame_columns = [(''1'', [3, 3])]\<rparr>"

section \<open>Properties of the pricer\<close>

lemma norm_cdf_term_minus: "norm_cdf_term (- x) n = - norm_cdf_term x n"
  by (simp add: norm_cdf_term_def)

lemma norm_cdf_term_bound:
  "norm (norm_cdf_term x n) \<le> \<bar>x\<bar> * (inverse (fact n) * (x\<^sup>2 / 2) ^ n)"
proof -
  have pos: "(0::real) < 2 ^ n * fact n"
    by simp
  have "norm (norm_cdf_term x n) = \<bar>x\<bar> ^ (2 * n + 1) / (2 ^ n * fact n * real (2 * n + 1))"
    by (simp add: norm_cdf_term_def abs_mult power_abs)
  also have "\<dots> \<le> \<bar>x\<bar> ^ (2 * n + 1) / (2 ^ n * fact n)"
  proof (rule divide_left_mono)
    have "2 ^ n * fact n * 1 \<le> 2 ^ n * fact n * real (2 * n + 1)"
      by (rule mult_left_mono) simp_all
    then show "2 ^ n * fact n \<le> 2 ^ n * fact n * real (2 * n + 1)"
      by simp
    show "0 \<le> \<bar>x\<bar> ^ (2 * n + 1)"
      by simp
    show "0 < 2 ^ n * fact n * real (2 * n + 1) * (2 ^ n * fact n)"
      using pos by simp
  qed
  also have "\<dots> = \<bar>x\<bar> * (inverse (fact n) * (x\<^sup>2 / 2) ^ n)"
  proof -
    have "\<bar>x\<bar> ^ (2 * n + 1) = \<bar>x\<bar> * (x\<^sup>2) ^ n"
      by (simp add: power_mult)
    moreover have "(x\<^sup>2 / 2) ^ n = (x\<^sup>2) ^ n / 2 ^ n"
      by (rule power_divide)
    ultimately show ?thesis
      by (simp only: divide_inverse inverse_mult_distrib mult_ac)
  qed
  finally show ?thesis .
qed

lemma summable_norm_cdf_term: "summable (norm_cdf_term x)"
proof (rule summable_comparison_test)
  show "\<exists>N. \<forall>n\<ge>N. norm (norm_cdf_term x n) \<le> \<bar>x\<bar> * (inverse (fact n) * (x\<^sup>2 / 2) ^ n)"
    using norm_cdf_term_bound by blast
  show "summable (\<lambda>n. \<bar>x\<bar> * (inverse (fact n) * (x\<^sup>2 / 2) ^ n))"
    by (rule summable_mult) (rule summable_exp)
qed

lemma norm_cdf_symmetric: "norm_cdf (- x) = 1 - norm_cdf x"
proof -
  have "(\<Sum>n. norm_cdf_term (- x) n) = (\<Sum>n. - norm_cdf_term x n)"
    by (simp add: norm_cdf_term_minus)
  also have "\<dots> = - (\<Sum>n. norm_cdf_term x n)"
    by (rule suminf_minus) (rule summable_norm_cdf_term)
  finally show ?thesis
    by (simp add: norm_cdf_def)
qed

lemma norm_cdf_zero: "norm_cdf 0 = 1 / 2"
  by (simp add: norm_cdf_def norm_cdf_term_def)

text \<open>
  C5. For an option kind CALL or PUT and strictly positive \<open>S0\<close>, \<open>K\<close>, \<open>T\<close> and
  \<open>sigma\<close>, the pricer returns a price, and it is the closed-form value of the
  specification: with \<open>d1 = (ln (S0/K) + (r + sigma\<^sup>2/2) T) / (sigma sqrt T)\<close> and
  \<open>d2 = d1 - sigma sqrt T\<close>, a CALL prices to \<open>S0 \<Phi>(d1) - K exp (-r T) \<Phi>(d2)\<close> and a PUT to
  \<open>K exp (-r T) \<Phi>(-d2) - S0 \<Phi>(-d1)\<close>.
\<close>

theorem bsm_option_price_closed_form:
  assumes "0 < S0" and "0 < K" and "0 < T" and "0 < sigma"
  shows "bsm_option_price (kind_code k) S0 K T sigma r = Inr (spec_price k S0 K T sigma r)"
  by (cases k) (simp_all add: bsm_option_price_def spec_d1_def spec_d2_def Let_def)

theorem bsm_option_price_closed_form_witness:
  "bsm_option_price (kind_code PUT) 100 95 (1 / 10) (1 / 5) (3 / 100)
     = Inr (spec_price PUT 100 95 (1 / 10) (1 / 5) (3 / 100))"
  by (rule bsm_option_price_closed_form) simp_all

text \<open>
  Put-call parity over the reals: for the same strictly positive \<open>S0\<close>, \<open>K\<close>, \<open>T\<close>,
  \<open>sigma\<close> and any rate \<open>r\<close>, the pricer returns a call price and a put price whose
  difference is \<open>S0 - K exp (-r T)\<close>. This is the exact half of C6. Its other half, a
  relative tolerance of the parity in float64, depends on how the library's logarithm,
  exponential and distribution function round, which is not modelled.
\<close>

theorem put_call_parity:
  assumes "0 < S0" and "0 < K" and "0 < T" and "0 < sigma"
  shows "\<exists>c p. bsm_option_price 0 S0 K T sigma r = Inr c
            \<and> bsm_option_price 1 S0 K T sigma r = Inr p
            \<and> c - p = S0 - K * exp (- r * T)"
proof -
  define d1 where "d1 = (ln (S0 / K) + (r + 0.5 * sigma\<^sup>2) * T) / (sigma * sqrt T)"
  define d2 where "d2 = d1 - sigma * sqrt T"
  define c where "c = S0 * norm_cdf d1 - K * exp (- r * T) * norm_cdf d2"
  define p where "p = K * exp (- r * T) * norm_cdf (- d2) - S0 * norm_cdf (- d1)"
  have "bsm_option_price 0 S0 K T sigma r = Inr c"
    by (simp add: bsm_option_price_def Let_def c_def d1_def d2_def)
  moreover have "bsm_option_price 1 S0 K T sigma r = Inr p"
    by (simp add: bsm_option_price_def Let_def p_def d1_def d2_def)
  moreover have "c - p = S0 - K * exp (- r * T)"
    unfolding c_def p_def by (simp only: norm_cdf_symmetric) (simp add: algebra_simps)
  ultimately show ?thesis
    by blast
qed

theorem put_call_parity_witness:
  "\<exists>c p. bsm_option_price 0 100 95 (1 / 10) (1 / 5) (3 / 100) = Inr c
       \<and> bsm_option_price 1 100 95 (1 / 10) (1 / 5) (3 / 100) = Inr p
       \<and> c - p = 100 - 95 * exp (- (3 / 100) * (1 / 10))"
  by (rule put_call_parity) simp_all

section \<open>Properties of the metrics engine\<close>

lemma to_datetime_length: "to_datetime parse ls = Inr ts \<Longrightarrow> length ts = length ls"
proof (induction ls arbitrary: ts)
  case Nil
  then show ?case by simp
next
  case (Cons l ls)
  then show ?case
    by (cases l) (auto split: sum.splits option.splits)
qed

lemma to_datetime_Stamp: "to_datetime parse (map Stamp ts) = Inr ts"
  by (induction ts) simp_all

lemma to_datetime_all_Stamp:
  "\<forall>l\<in>set ls. \<exists>t. l = Stamp t \<Longrightarrow> \<exists>ts. to_datetime parse ls = Inr ts \<and> map Stamp ts = ls"
proof (induction ls)
  case Nil
  then show ?case by simp
next
  case (Cons l ls)
  then obtain ts where "to_datetime parse ls = Inr ts" "map Stamp ts = ls"
    by auto
  moreover from Cons.prems obtain t where "l = Stamp t"
    by auto
  ultimately show ?case
    by simp
qed

lemma zip_fst_snd: "zip (map fst xs) (map snd xs) = xs"
  by (induction xs) auto

lemma info_keeps_values: "map snd (fst (get_backtest_info parse ser)) = map snd ser"
  by (auto simp: get_backtest_info_def split: sum.splits dest: to_datetime_length)

lemma info_converts_index:
  "to_datetime parse (map fst ser) = Inr ts
   \<Longrightarrow> map fst (fst (get_backtest_info parse ser)) = map Stamp ts"
  by (auto simp: get_backtest_info_def dest: to_datetime_length)

lemma info_on_parse_error:
  "to_datetime parse (map fst ser) = Inl e \<Longrightarrow> get_backtest_info parse ser = (ser, Inl e)"
  by (simp add: get_backtest_info_def)

lemma info_keeps_stamped_series:
  assumes "\<forall>l\<in>set (map fst ser). \<exists>t. l = Stamp t"
  shows "fst (get_backtest_info parse ser) = ser"
proof -
  from to_datetime_all_Stamp [OF assms] obtain ts
    where ts: "to_datetime parse (map fst ser) = Inr ts" "map Stamp ts = map fst ser"
    by blast
  then show ?thesis
    by (simp add: get_backtest_info_def zip_fst_snd)
qed

lemma info_second_call:
  "snd (get_backtest_info parse (fst (get_backtest_info parse ser)))
     = snd (get_backtest_info parse ser)"
proof (cases "to_datetime parse (map fst ser)")
  case (Inl e)
  then show ?thesis
    by (simp add: get_backtest_info_def)
next
  case (Inr ts)
  then have len: "length ts = length ser"
    using to_datetime_length by fastforce
  then show ?thesis
    using Inr by (simp add: get_backtest_info_def to_datetime_Stamp)
qed

text \<open>
  The cumulative-return series of line 52 is the running product of the period returns
  themselves, since the source adds \<open>0\<close> to them and not \<open>1\<close>. Its first factor is the
  filled-in \<open>0\<close>, so on every series of positive values each entry is \<open>0\<close>.
\<close>

lemma pct_change_Fin:
  "\<forall>a\<in>set ps. a \<noteq> 0 \<Longrightarrow>
   map2 (\<lambda>prev cur. fsub (fdiv cur prev) (Fin 1)) (map Fin ps) (map Fin cs)
     = map Fin (map2 (\<lambda>p c. c / p - 1) ps cs)"
proof (induction ps arbitrary: cs)
  case Nil
  then show ?case by simp
next
  case (Cons p ps)
  then show ?case
    by (cases cs) (simp_all add: fsub_def)
qed

lemma cumprod_from_zero: "cumprod_from (Fin 0) (map Fin rs) = replicate (length rs) (Fin 0)"
  by (induction rs) simp_all

lemma cum_ret_ser_zero:
  assumes "\<forall>a\<in>set as. 0 < a" and "as \<noteq> []"
  shows "cum_ret_ser (map Fin as) = replicate (length as) (Fin 0)"
proof -
  from assms(2) obtain a rest where as: "as = a # rest"
    by (cases as) auto
  define rs where "rs = map2 (\<lambda>p c. c / p - 1) (a # rest) rest"
  have len: "length rs = length rest"
    by (simp add: rs_def)
  have nz: "\<forall>x\<in>set (a # rest). x \<noteq> 0"
    using assms(1) as by auto
  have "pct_change (map Fin as) = NaN # map Fin rs"
    using pct_change_Fin [OF nz, of rest] by (simp add: as rs_def)
  then have "map (\<lambda>r. fadd r (Fin 0)) (fillna (Fin 0) (pct_change (map Fin as))) = Fin 0 # map Fin rs"
    by (simp add: fillna_def)
  then have "cum_ret_ser (map Fin as) = Fin 0 # cumprod_from (Fin 0) (map Fin rs)"
    by (simp add: cum_ret_ser_def cumprod_def)
  then show ?thesis
    by (simp add: cumprod_from_zero len as)
qed

lemma resample_two_days:
  "resample_last_dropna [(0, Fin 1), (86400000000000, Fin 2)]
     = [(0, Fin 1), (86400000000000, Fin 2)]"
  by (simp add: resample_last_dropna_def day_of_def ns_per_day_def Let_def)

lemma resample_three_days:
  "resample_last_dropna [(0, Fin 1), (86400000000000, Fin 2), (172800000000000, Fin 3)]
     = [(0, Fin 1), (86400000000000, Fin 2), (172800000000000, Fin 3)]"
  by (simp add: resample_last_dropna_def day_of_def ns_per_day_def Let_def)

text \<open>
  C1. The claim: on a series with at least two daily observations and positive values the
  cumulative-return series starts at 1, equals \<open>value[t] / value[0]\<close>, and the total return
  is \<open>value[last] / value[0] - 1\<close>. The code does not do this. On the values 1 and 2 of
  two consecutive days (the timestamps of 1970-01-01 and 1970-01-02), where the claim gives the series 1, 2 and the total return 1, the
  source's series is 0, 0 and its report has the total return \<open>-1\<close>.
\<close>

theorem cum_ret_ser_two_days:
  "cum_ret_ser [Fin 1, Fin 2] = [Fin 0, Fin 0]
   \<and> snd (get_backtest_info (Some :: int \<Rightarrow> int option)
              [(Stamp 0, Fin 1), (Stamp 86400000000000, Fin 2)])
       = Inr \<lparr>total_return = Fin (- 1),
              annualized_return = Fin (- 1),
              annualized_volatility = NaN,
              maximum_drawdown = NaN,
              sharpe_ratio = NaN,
              calmar_ratio = NaN,
              maximum_drawdown_start_date = 0,
              maximum_drawdown_end_date = 0\<rparr>"
proof -
  have cum: "cum_ret_ser [Fin 1, Fin 2] = [Fin 0, Fin 0]"
    using cum_ret_ser_zero [of "[1, 2]"] by simp
  have dd: "drawdowns [Fin 0, Fin 0] = [NaN, NaN]"
    by (simp add: drawdowns_def maximum_accumulate_def np_maximum_def fsub_def)
  have "metrics [(0, Fin 1), (86400000000000, Fin 2)]
          = Inr \<lparr>total_return = Fin (- 1), annualized_return = Fin (- 1),
                 annualized_volatility = NaN, maximum_drawdown = NaN, sharpe_ratio = NaN,
                 calmar_ratio = NaN, maximum_drawdown_start_date = 0,
                 maximum_drawdown_end_date = 0\<rparr>"
    by (simp add: metrics_def resample_two_days cum dd Let_def py_max_def idxmax_def
          expanding_max_def fsub_def std_def dropna_def)
  then show ?thesis
    using cum by (simp add: get_backtest_info_def)
qed

text \<open>
  C3. The claim: on a strictly increasing value series with at least two daily
  observations the maximum drawdown is exactly 0. The code does not do this. On the values
  1, 2, 3 of three consecutive days every drawdown of line 67 is \<open>0 / 0\<close>, because the
  cumulative returns are all 0, and the reported maximum drawdown is NaN.
\<close>

theorem maximum_drawdown_three_days:
  "(case snd (get_backtest_info (Some :: int \<Rightarrow> int option)
       [(Stamp 0, Fin 1), (Stamp 86400000000000, Fin 2), (Stamp 172800000000000, Fin 3)]) of
      Inl e \<Rightarrow> None
    | Inr rep \<Rightarrow> Some (maximum_drawdown rep)) = Some NaN"
proof -
  have cum: "cum_ret_ser [Fin 1, Fin 2, Fin 3] = [Fin 0, Fin 0, Fin 0]"
    using cum_ret_ser_zero [of "[1, 2, 3]"] by simp
  have dd: "drawdowns [Fin 0, Fin 0, Fin 0] = [NaN, NaN, NaN]"
    by (simp add: drawdowns_def maximum_accumulate_def np_maximum_def fsub_def)
  show ?thesis
    by (simp add: get_backtest_info_def metrics_def resample_three_days cum dd Let_def
          py_max_def idxmax_def expanding_max_def fsub_def)
qed

text \<open>
  C4, as amended. The claim that the caller's series is unchanged fails: line 45 assigns
  the converted index to the caller's object. What holds: the call leaves the values of
  the caller's series as they are and replaces its index by the converted one; when the
  conversion raises, the series is as before; a series whose index already holds
  timestamps is unchanged; and a second call on the same object gives the same result as
  the first.
\<close>

theorem get_backtest_info_frame:
  "map snd (fst (get_backtest_info parse ser)) = map snd ser
   \<and> (\<forall>ts. to_datetime parse (map fst ser) = Inr ts
          \<longrightarrow> map fst (fst (get_backtest_info parse ser)) = map Stamp ts)
   \<and> (\<forall>e. to_datetime parse (map fst ser) = Inl e \<longrightarrow> get_backtest_info parse ser = (ser, Inl e))
   \<and> ((\<forall>l\<in>set (map fst ser). \<exists>t. l = Stamp t) \<longrightarrow> fst (get_backtest_info parse ser) = ser)
   \<and> snd (get_backtest_info parse (fst (get_backtest_info parse ser)))
       = snd (get_backtest_info parse ser)"
  using info_keeps_values info_converts_index info_on_parse_error info_keeps_stamped_series
    info_second_call by blast

theorem get_backtest_info_frame_witness:
  "map snd (fst (get_backtest_info Some [(Raw (0::int), Fin 1), (Raw 86400000000000, Fin 2)]))
     = [Fin 1, Fin 2]
   \<and> map fst (fst (get_backtest_info Some [(Raw (0::int), Fin 1), (Raw 86400000000000, Fin 2)]))
       = [Stamp 0, Stamp 86400000000000]
   \<and> fst (get_backtest_info Some [(Stamp 0 :: int label, Fin 1), (Stamp 86400000000000, Fin 2)])
       = [(Stamp 0, Fin 1), (Stamp 86400000000000, Fin 2)]"
  using get_backtest_info_frame [of Some "[(Raw 0, Fin 1), (Raw 86400000000000, Fin 2)]"]
        get_backtest_info_frame [of Some "[(Stamp 0, Fin 1), (Stamp 86400000000000, Fin 2)]"]
  by simp

text \<open>
  The counterexample to C4 as stated: a series indexed by the integers 0 and
  86400000000000, which the library reads as nanoseconds since the epoch, comes back with
  two timestamps as its index.
\<close>

theorem get_backtest_info_changes_index:
  "fst (get_backtest_info Some [(Raw (0::int), Fin 1), (Raw 86400000000000, Fin 2)])
     \<noteq> [(Raw 0, Fin 1), (Raw 86400000000000, Fin 2)]"
  by (simp add: get_backtest_info_def)

section \<open>Properties of data preparation and the backtest\<close>

lemma traverse_Inr:
  "traverse f xs = Inr ys \<Longrightarrow> length ys = length xs \<and> (\<forall>j<length xs. f (xs ! j) = Inr (ys ! j))"
proof (induction xs arbitrary: ys)
  case Nil
  then show ?case by simp
next
  case (Cons x xs)
  from Cons.prems obtain y ys' where y: "f x = Inr y" and ys': "traverse f xs = Inr ys'"
    and ys: "ys = y # ys'"
    by (auto split: sum.splits)
  from Cons.IH [OF ys'] have "length ys' = length xs" and "\<forall>j<length xs. f (xs ! j) = Inr (ys' ! j)"
    by simp_all
  then show ?case
    using y ys by (auto simp: nth_Cons split: nat.splits)
qed

lemma traverse_total:
  "\<forall>x\<in>set xs. \<exists>y. f x = Inr y \<Longrightarrow> \<exists>ys. traverse f xs = Inr ys"
proof (induction xs)
  case Nil
  then show ?case by simp
next
  case (Cons x xs)
  then obtain y ys where "f x = Inr y" "traverse f xs = Inr ys"
    by auto
  then show ?case by simp
qed


text \<open>Rounding to float64: the value at a known exponent, and a float is its own rounding.\<close>

lemma fl64_at:
  assumes "2 powi e \<le> \<bar>x\<bar>" and "\<bar>x\<bar> < 2 powi (e + 1)" and "- 1022 \<le> e"
  shows "fl64 x = of_int (round_half_even (x / 2 powi (e - 52))) * 2 powi (e - 52)"
proof -
  have pos: "0 < \<bar>x\<bar>"
    using assms(1) by (smt (verit) zero_less_power_int)
  have lo: "(2::real) powr of_int e = 2 powi e"
    by (rule powr_real_of_int') simp_all
  have hi: "(2::real) powr of_int (e + 1) = 2 powi (e + 1)"
    by (rule powr_real_of_int') simp_all
  have "(2::real) powr of_int e \<le> \<bar>x\<bar> \<and> \<bar>x\<bar> < 2 powr of_int (e + 1)"
    unfolding lo hi using assms(1,2) by blast
  then have "\<lfloor>log 2 \<bar>x\<bar>\<rfloor> = e"
    using pos floor_log_eq_powr_iff [of "\<bar>x\<bar>" 2 e] by simp
  then show ?thesis
    using pos assms(3) by (simp add: fl64_def Let_def max_def)
qed

lemma fl64_exact:
  assumes "2 powi e \<le> \<bar>x\<bar>" and "\<bar>x\<bar> < 2 powi (e + 1)" and "- 1022 \<le> e"
    and "x / 2 powi (e - 52) = of_int n"
  shows "fl64 x = x"
proof -
  have "round_half_even (of_int n) = n"
    by (simp add: round_half_even_def)
  then have "fl64 x = of_int n * 2 powi (e - 52)"
    using fl64_at [OF assms(1-3)] assms(4) by simp
  also have "\<dots> = x"
    using assms(4) by (simp add: field_simps)
  finally show ?thesis .
qed

lemma fl64_above_one: "fl64 (1 + 5 / 2 ^ 55) = 1 + 1 / 2 ^ 52"
proof -
  have "fl64 (1 + 5 / 2 ^ 55)
          = of_int (round_half_even ((1 + 5 / 2 ^ 55) / 2 powi (0 - 52))) * 2 powi (0 - 52)"
    by (rule fl64_at) simp_all
  also have "(1 + 5 / 2 ^ 55) / 2 powi (0 - 52) = (4503599627370496 + 5 / 8 :: real)"
    by (simp add: power_int_minus field_simps)
  also have "round_half_even (4503599627370496 + 5 / 8) = 4503599627370497"
    by (simp add: round_half_even_def Let_def)
  finally show ?thesis
    by (simp add: power_int_minus field_simps)
qed

lemma fl64_below_one: "fl64 (1 - 5 / 2 ^ 55) = 1 - 1 / 2 ^ 53"
proof -
  have "fl64 (1 - 5 / 2 ^ 55)
          = of_int (round_half_even ((1 - 5 / 2 ^ 55) / 2 powi (- 1 - 52))) * 2 powi (- 1 - 52)"
    by (rule fl64_at) (simp_all add: power_int_minus)
  also have "(1 - 5 / 2 ^ 55) / 2 powi (- 1 - 52) = (9007199254740990 + 3 / 4 :: real)"
    by (simp add: power_int_minus field_simps)
  also have "round_half_even (9007199254740990 + 3 / 4) = 9007199254740991"
    by (simp add: round_half_even_def Let_def)
  finally show ?thesis
    by (simp add: power_int_minus field_simps)
qed

lemma fl64_next_above_one: "fl64 (1 + 1 / 2 ^ 52) = 1 + 1 / 2 ^ 52"
  by (rule fl64_exact [where e = 0 and n = "2 ^ 52 + 1"]) (simp_all add: power_int_minus field_simps)

lemma fl64_next_below_one: "fl64 (1 - 1 / 2 ^ 53) = 1 - 1 / 2 ^ 53"
  by (rule fl64_exact [where e = "- 1" and n = "2 ^ 53 - 1"]) (simp_all add: power_int_minus field_simps)

lemma fl64_half: "fl64 (1 / 2) = 1 / 2"
  by (rule fl64_exact [where e = "- 1" and n = "2 ^ 52"]) (simp_all add: power_int_minus)

lemma signal_of_cases:
  "(p > fl64 (fl64 (1 + th) * c) \<longrightarrow> signal_of th p c = 1)
   \<and> (\<not> p > fl64 (fl64 (1 + th) * c) \<and> p < fl64 (fl64 (1 - th) * c) \<longrightarrow> signal_of th p c = - 1)
   \<and> (\<not> p > fl64 (fl64 (1 + th) * c) \<and> \<not> p < fl64 (fl64 (1 - th) * c) \<longrightarrow> signal_of th p c = 0)
   \<and> (fl64 (fl64 (1 - th) * c) \<le> p \<and> p \<le> fl64 (fl64 (1 + th) * c) \<longrightarrow> signal_of th p c = 0)
   \<and> (fl64 (fl64 (1 - th) * c) \<le> fl64 (fl64 (1 + th) * c) \<and> p < fl64 (fl64 (1 - th) * c)
        \<longrightarrow> signal_of th p c = - 1)
   \<and> signal_of th p c \<in> {- 1, 0, 1}"
  by (auto simp: signal_of_def)

lemma signal_rows_nth:
  assumes "signal_rows sigma thres s prepared_data prices = Inr signals"
    and "length prices = length prepared_data"
    and "j < length prepared_data"
  shows "\<exists>th. thres_of sigma thres s = Inr th
              \<and> signals ! j = signal_of th (prices ! j) (p_close (prepared_data ! j))"
proof -
  from traverse_Inr [OF assms(1) [unfolded signal_rows_def]] assms(2,3)
  have "(case (zip prepared_data prices) ! j of (r, price) \<Rightarrow>
           case thres_of sigma thres s of Inl e \<Rightarrow> Inl e
           | Inr th \<Rightarrow> Inr (signal_of th price (p_close r))) = Inr (signals ! j)"
    by simp
  then show ?thesis
    using assms(2,3) by (auto split: sum.splits)
qed

text \<open>
  C7, as amended. For every row of a variant whose signals were generated, with model
  price \<open>p\<close>, close \<open>c\<close> and the variant's threshold \<open>th\<close>, let \<open>hi\<close> and \<open>lo\<close> be the
  products \<open>(1 + th) c\<close> and \<open>(1 - th) c\<close> as the floats compute them, each operation
  rounded. The signal is \<open>+1\<close> if \<open>p > hi\<close>; it is \<open>-1\<close> if \<open>p < lo\<close> and the first test has
  failed; it is \<open>0\<close> otherwise. Both comparisons are strict, so a price with
  \<open>lo \<le> p \<le> hi\<close> yields \<open>0\<close>; when \<open>lo \<le> hi\<close> the two tests exclude each other and
  \<open>p < lo\<close> alone yields \<open>-1\<close>; when moreover no rounding occurs in the two products the
  three cases hold for the exact products, as the claim words them; the signal is always
  one of \<open>-1\<close>, \<open>0\<close>, \<open>+1\<close>.
\<close>

theorem signal_column:
  assumes "signal_rows sigma thres s prepared_data prices = Inr signals"
    and "length prices = length prepared_data"
    and "j < length prepared_data"
  shows "\<exists>th. thres_of sigma thres s = Inr th \<and>
     (let p = prices ! j; c = p_close (prepared_data ! j); sg = signals ! j;
          hi = fl64 (fl64 (1 + th) * c); lo = fl64 (fl64 (1 - th) * c)
      in (p > hi \<longrightarrow> sg = 1)
         \<and> (\<not> p > hi \<and> p < lo \<longrightarrow> sg = - 1)
         \<and> (\<not> p > hi \<and> \<not> p < lo \<longrightarrow> sg = 0)
         \<and> (lo \<le> p \<and> p \<le> hi \<longrightarrow> sg = 0)
         \<and> (lo \<le> hi \<and> p < lo \<longrightarrow> sg = - 1)
         \<and> (hi = (1 + th) * c \<and> lo = (1 - th) * c \<and> lo \<le> hi
              \<longrightarrow> (p > (1 + th) * c \<longrightarrow> sg = 1) \<and> (p < (1 - th) * c \<longrightarrow> sg = - 1)
                  \<and> (\<not> p > (1 + th) * c \<and> \<not> p < (1 - th) * c \<longrightarrow> sg = 0))
         \<and> sg \<in> {- 1, 0, 1})"
proof -
  from signal_rows_nth [OF assms] obtain th where th: "thres_of sigma thres s = Inr th"
    and sg: "signals ! j = signal_of th (prices ! j) (p_close (prepared_data ! j))"
    by blast
  let ?p = "prices ! j" and ?c = "p_close (prepared_data ! j)"
  let ?hi = "fl64 (fl64 (1 + th) * ?c)" and ?lo = "fl64 (fl64 (1 - th) * ?c)"
  have cases: "(?p > ?hi \<longrightarrow> signal_of th ?p ?c = 1)
      \<and> (\<not> ?p > ?hi \<and> ?p < ?lo \<longrightarrow> signal_of th ?p ?c = - 1)
      \<and> (\<not> ?p > ?hi \<and> \<not> ?p < ?lo \<longrightarrow> signal_of th ?p ?c = 0)
      \<and> (?lo \<le> ?p \<and> ?p \<le> ?hi \<longrightarrow> signal_of th ?p ?c = 0)
      \<and> (?lo \<le> ?hi \<and> ?p < ?lo \<longrightarrow> signal_of th ?p ?c = - 1)
      \<and> signal_of th ?p ?c \<in> {- 1, 0, 1}"
    by (rule signal_of_cases)
  have exact: "?hi = (1 + th) * ?c \<and> ?lo = (1 - th) * ?c \<and> ?lo \<le> ?hi
      \<longrightarrow> (?p > (1 + th) * ?c \<longrightarrow> signal_of th ?p ?c = 1)
          \<and> (?p < (1 - th) * ?c \<longrightarrow> signal_of th ?p ?c = - 1)
          \<and> (\<not> ?p > (1 + th) * ?c \<and> \<not> ?p < (1 - th) * ?c \<longrightarrow> signal_of th ?p ?c = 0)"
    using cases by auto
  show ?thesis
    unfolding Let_def sg
    by (rule exI [of _ th]) (insert th cases exact, blast)
qed

text \<open>
  The counterexample to C7 as stated, at two inputs. With the threshold \<open>5 / 2^55\<close>, the
  price \<open>1 + 1 / 2^52\<close> and the close 1, all three float64 values, the price is above the
  exact product \<open>(1 + th) c\<close>, but \<open>1 + th\<close> rounds up to the price itself and the signal
  is \<open>0\<close>, not \<open>+1\<close>. With the threshold \<open>-1/2\<close>, price 1 and close 1 both tests hold,
  \<open>1 > 1/2\<close> and \<open>1 < 3/2\<close>; the first one wins and the signal is \<open>+1\<close>, although the
  price is below \<open>(1 - th) c\<close>.
\<close>

theorem signal_bounds_rounded:
  "(1 + 5 / 2 ^ 55) * 1 < (1 + 1 / 2 ^ 52 :: real)
   \<and> signal_of (5 / 2 ^ 55) (1 + 1 / 2 ^ 52) 1 = 0
   \<and> (1::real) < (1 - (- 1 / 2)) * 1
   \<and> signal_of (- 1 / 2) 1 1 = 1"
proof -
  have "signal_of (5 / 2 ^ 55) (1 + 1 / 2 ^ 52) 1 = 0"
    unfolding signal_of_def
    by (simp only: mult_1_right fl64_above_one fl64_below_one fl64_next_above_one
          fl64_next_below_one) simp
  moreover have "signal_of (- 1 / 2) 1 1 = 1"
  proof -
    have "fl64 (fl64 (1 + - 1 / 2) * 1) = 1 / 2"
      by (simp add: fl64_half)
    then show ?thesis
      unfolding signal_of_def by (simp only:) simp
  qed
  ultimately show ?thesis
    by simp
qed

lemma three_quotes_length: "length three_quotes = 3"
  by (simp add: three_quotes_def prepare_rows_def prepare_row_def merged_quote_def)

lemma fl64_quote_bounds:
  "fl64 (65 / 64) = 65 / 64" "fl64 (63 / 64) = 63 / 64"
  "fl64 (195 / 32) = 195 / 32" "fl64 (189 / 32) = 189 / 32"
  "fl64 (65 / 32) = 65 / 32" "fl64 (63 / 32) = 63 / 32"
proof -
  show "fl64 (65 / 64) = 65 / 64"
    by (rule fl64_exact [where e = 0 and n = "65 * 2 ^ 46"]) (simp_all add: power_int_minus)
  show "fl64 (63 / 64) = 63 / 64"
    by (rule fl64_exact [where e = "- 1" and n = "63 * 2 ^ 47"]) (simp_all add: power_int_minus)
  show "fl64 (195 / 32) = 195 / 32"
    by (rule fl64_exact [where e = 2 and n = "195 * 2 ^ 45"]) (simp_all add: power_int_minus)
  show "fl64 (189 / 32) = 189 / 32"
    by (rule fl64_exact [where e = 2 and n = "189 * 2 ^ 45"]) (simp_all add: power_int_minus)
  show "fl64 (65 / 32) = 65 / 32"
    by (rule fl64_exact [where e = 1 and n = "65 * 2 ^ 46"]) (simp_all add: power_int_minus)
  show "fl64 (63 / 32) = 63 / 32"
    by (rule fl64_exact [where e = 0 and n = "63 * 2 ^ 47"]) (simp_all add: power_int_minus)
qed

lemma signal_of_quotes:
  "signal_of (1 / 64) 7 6 = 1" "signal_of (1 / 64) 1 2 = - 1" "signal_of (1 / 64) 6 6 = 0"
  by (simp_all add: signal_of_def fl64_quote_bounds)

lemma three_quotes_signals:
  "signal_rows [''v''] [1 / 64] ''v'' three_quotes [7, 1, 6] = Inr [1, - 1, 0]"
  by (simp add: three_quotes_def prepare_rows_def prepare_row_def merged_quote_def
        signal_rows_def thres_of_def signal_of_quotes)

theorem signal_column_witness:
  "signal_rows [''v''] [1 / 64] ''v'' three_quotes [7, 1, 6] = Inr [1, - 1, 0]
   \<and> thres_of [''v''] [1 / 64] ''v'' = Inr (1 / 64)
   \<and> (1::real) < fl64 (fl64 (1 - 1 / 64) * 2)"
proof -
  have len: "length [7, 1, 6 :: real] = length three_quotes"
    by (simp add: three_quotes_length)
  have j: "1 < length three_quotes"
    by (simp add: three_quotes_length)
  from signal_column [OF three_quotes_signals len j] three_quotes_signals
  show ?thesis
    by (simp add: thres_of_def fl64_quote_bounds)
qed

lemma three_quotes_daily:
  "daily_returns three_quotes [1, - 1, 0] = [(0, 3 / 100), (86400000000000, 0)]"
  by (simp add: daily_returns_def three_quotes_def prepare_rows_def prepare_row_def
        merged_quote_def groupby_mean_def)

lemma cumsum_from_length: "length (cumsum_from acc xs) = length xs"
  by (induction xs arbitrary: acc) simp_all

lemma cumsum_from_butlast: "butlast (cumsum_from acc xs) = cumsum_from acc (butlast xs)"
proof (induction xs arbitrary: acc)
  case Nil
  then show ?case by simp
next
  case (Cons x xs)
  then show ?case
    by (cases xs) simp_all
qed

lemma cumsum_from_nth:
  "t < length xs \<Longrightarrow> cumsum_from acc xs ! t = acc + sum_list (take (Suc t) xs)"
proof (induction xs arbitrary: acc t)
  case Nil
  then show ?case by simp
next
  case (Cons x xs)
  then show ?case
    by (cases t) (simp_all add: add.assoc)
qed

lemma cumulative_value_eq:
  assumes "dd \<noteq> []"
  shows "cumulative_value commission dd
           = Fin 1 # map (\<lambda>v. Fin (v + 1)) (cumsum (map (\<lambda>v. v - commission) (butlast dd)))"
proof -
  have ne: "cumsum (map (\<lambda>v. v - commission) dd) \<noteq> []"
    using assms cumsum_from_length [of 0 "map (\<lambda>v. v - commission) dd"]
    by (auto simp: cumsum_def)
  have "butlast (map (\<lambda>x. Fin (x + 1)) (cumsum (map (\<lambda>v. v - commission) dd)))
          = map (\<lambda>x. Fin (x + 1)) (cumsum (map (\<lambda>v. v - commission) (butlast dd)))"
    by (simp add: map_butlast [symmetric] cumsum_def cumsum_from_butlast)
  then show ?thesis
    using ne by (simp add: cumulative_value_def shift1_def fillna_def o_def)
qed

lemma cumulative_value_last_dropped:
  "cumulative_value commission (xs @ [x]) = cumulative_value commission (xs @ [y])"
  by (simp add: cumulative_value_eq)

lemma groupby_mean_empty: "groupby_mean xs = [] \<longleftrightarrow> xs = []"
proof -
  have "length (groupby_mean xs) = length (remdups (map fst xs))"
    by (simp add: groupby_mean_def)
  then show ?thesis
    by (metis length_0_conv remdups_eq_nil_iff map_is_Nil_conv)
qed

text \<open>
  The dates of the daily series come out ascending and each once, so its last entry is the
  latest date of the record set.
\<close>

lemma groupby_mean_dates: "map fst (groupby_mean xs) = sort (remdups (map fst xs))"
  by (simp add: groupby_mean_def o_def)

lemma groupby_mean_ascending:
  "sorted (map fst (groupby_mean xs)) \<and> distinct (map fst (groupby_mean xs))"
  by (simp add: groupby_mean_dates)

lemma sorted_last_greatest: "sorted ys \<Longrightarrow> y \<in> set ys \<Longrightarrow> y \<le> last ys"
  by (induction ys) auto

lemma groupby_mean_last_latest:
  assumes "p \<in> set xs"
  shows "fst p \<le> fst (last (groupby_mean xs))"
proof -
  have ne: "groupby_mean xs \<noteq> []"
    using assms by (auto simp: groupby_mean_empty)
  have "fst p \<in> set (map fst (groupby_mean xs))"
    using assms by (simp add: groupby_mean_dates)
  then have "fst p \<le> last (map fst (groupby_mean xs))"
    using groupby_mean_ascending sorted_last_greatest by blast
  then show ?thesis
    using ne by (simp add: last_map)
qed

lemma daily_returns_nonempty:
  "prepared_data \<noteq> [] \<Longrightarrow> length signals = length prepared_data
   \<Longrightarrow> daily_returns prepared_data signals \<noteq> []"
  by (cases prepared_data; cases signals) (simp_all add: daily_returns_def groupby_mean_empty)

text \<open>
  C8. For every non-empty prepared record set, with one signal per record: the
  cumulative value series has one value per date, its first value is exactly 1, and its
  value at every position \<open>t \<ge> 1\<close> is 1 plus the sum of the commission-adjusted daily average
  returns of the positions before \<open>t\<close>.
\<close>

theorem cumulative_value_series:
  assumes "prepared_data \<noteq> []" and "length signals = length prepared_data"
  shows "let dd = map snd (daily_returns prepared_data signals);
             pnl = cumulative_value commission dd
         in length pnl = length dd \<and> pnl \<noteq> [] \<and> pnl ! 0 = Fin 1
            \<and> (\<forall>t. 1 \<le> t \<and> t < length pnl
                  \<longrightarrow> pnl ! t = Fin (1 + sum_list (take t (map (\<lambda>v. v - commission) dd))))"
proof -
  define dd where "dd = map snd (daily_returns prepared_data signals)"
  define adj where "adj = map (\<lambda>v. v - commission) (butlast dd)"
  have ne: "dd \<noteq> []"
    using daily_returns_nonempty [OF assms] by (simp add: dd_def)
  have pnl: "cumulative_value commission dd = Fin 1 # map (\<lambda>v. Fin (v + 1)) (cumsum adj)"
    using cumulative_value_eq [OF ne] by (simp add: adj_def)
  have len: "length (cumsum adj) = length dd - 1"
    by (simp add: cumsum_def cumsum_from_length adj_def)
  have later: "cumulative_value commission dd ! t
                 = Fin (1 + sum_list (take t (map (\<lambda>v. v - commission) dd)))"
    if "1 \<le> t" and "t < length (cumulative_value commission dd)" for t
  proof -
    from that obtain k where t: "t = Suc k"
      by (cases t) auto
    have k: "k < length adj"
      using that len by (simp add: pnl t cumsum_def cumsum_from_length)
    have "take (Suc k) adj = take (Suc k) (map (\<lambda>v. v - commission) dd)"
    proof -
      have "Suc k < length dd"
        using k by (simp add: adj_def)
      then have "take (Suc k) (butlast dd) = take (Suc k) dd"
        by (rule take_butlast)
      then show ?thesis
        by (simp only: adj_def take_map)
    qed
    then show ?thesis
      using k by (simp add: pnl t cumsum_def cumsum_from_nth cumsum_from_length)
  qed
  have length: "length (cumulative_value commission dd) = length dd"
    using ne len by (simp add: pnl)
  have first: "cumulative_value commission dd \<noteq> [] \<and> cumulative_value commission dd ! 0 = Fin 1"
    by (simp add: pnl)
  show ?thesis
    unfolding Let_def dd_def [symmetric] using length first later by blast
qed

theorem cumulative_value_series_witness:
  "cumulative_value (1 / 1000) (map snd (daily_returns three_quotes [1, - 1, 0]))
     = [Fin 1, Fin (1029 / 1000)]"
proof -
  have ne: "three_quotes \<noteq> []"
    using three_quotes_length by auto
  have len: "length [1, - 1, 0 :: int] = length three_quotes"
    by (simp add: three_quotes_length)
  from cumulative_value_series [OF ne len, of "1 / 1000"]
  show ?thesis
    by (simp add: three_quotes_daily cumulative_value_def cumsum_def shift1_def fillna_def)
qed

lemma prepare_row_opt:
  "prepare_row m = Some r \<Longrightarrow> p_opt r = (if p_opt_type r = ''call'' then 0 else 1)"
  by (auto simp: prepare_row_def split: option.splits)

lemma map_filter_member:
  "r \<in> set (List.map_filter f xs) \<Longrightarrow> \<exists>x\<in>set xs. f x = Some r"
  by (induction xs) (auto split: option.splits)

lemma prepare_rows_opt:
  "r \<in> set (prepare_rows rows) \<Longrightarrow> p_opt r = (if p_opt_type r = ''call'' then 0 else 1)"
  unfolding prepare_rows_def using map_filter_member prepare_row_opt by fastforce

lemma bsm_returns: "c = 0 \<or> c = 1 \<Longrightarrow> \<exists>price. bsm_option_price c S0 K T sg rf = Inr price"
  by (auto simp: bsm_option_price_def Let_def)

lemma price_rows_total: "\<exists>prices. price_rows (prepare_rows rows) = Inr prices"
  unfolding price_rows_def
proof (rule traverse_total, rule ballI)
  fix r assume "r \<in> set (prepare_rows rows)"
  then have "p_opt r = (if p_opt_type r = ''call'' then 0 else 1)"
    by (rule prepare_rows_opt)
  then have "p_opt r = 0 \<or> p_opt r = 1"
    by (simp split: if_splits)
  then show "\<exists>y. bsm_option_price (p_opt r) (p_S0 r) (p_K r) (p_T r) (p_sigma r) (p_rf r / 100) = Inr y"
    by (rule bsm_returns)
qed

lemma prepare_data_member:
  "prepare_data merged sigma shibor_file date_range = Inr items
   \<Longrightarrow> (Inr prepared_data, s) \<in> set items
   \<Longrightarrow> \<exists>shibor rows. merged shibor s = Inr rows \<and> prepared_data = prepare_rows rows"
  by (auto simp: prepare_data_def split: sum.splits) blast

text \<open>
  C9. Every record that \<open>prepare_data\<close> yields has \<open>opt = 0\<close> exactly when its option
  type is the string \<open>call\<close>, and \<open>opt = 1\<close> for every other option type. So the pricer
  returns a price for it, whatever the other arguments, and never raises; a record whose
  option type is not \<open>call\<close> is priced by the PUT formula; and the pricing loop over a
  prepared table runs through.
\<close>

theorem prepare_data_option_code:
  assumes "prepare_data merged sigma shibor_file date_range = Inr items"
    and "(Inr prepared_data, s) \<in> set items"
    and "r \<in> set prepared_data"
  shows "(p_opt r = 0 \<longleftrightarrow> p_opt_type r = ''call'')
         \<and> (p_opt_type r \<noteq> ''call'' \<longrightarrow> p_opt r = 1)
         \<and> (\<exists>price. bsm_option_price (p_opt r) S0 K T sg rf = Inr price)
         \<and> (p_opt_type r \<noteq> ''call''
              \<longrightarrow> bsm_option_price (p_opt r) S0 K T sg rf = Inr (spec_price PUT S0 K T sg rf))
         \<and> (\<exists>prices. price_rows prepared_data = Inr prices)"
proof -
  from prepare_data_member [OF assms(1,2)] obtain rows
    where rows: "prepared_data = prepare_rows rows"
    by blast
  have opt: "p_opt r = (if p_opt_type r = ''call'' then 0 else 1)"
    using assms(3) rows prepare_rows_opt by blast
  have put: "bsm_option_price 1 S0 K T sg rf = Inr (spec_price PUT S0 K T sg rf)"
    by (simp add: bsm_option_price_def spec_d1_def spec_d2_def Let_def)
  show ?thesis
    using opt put bsm_returns [of "p_opt r" S0 K T sg rf] price_rows_total [of rows]
    by (auto simp: rows)
qed

theorem prepare_data_option_code_witness:
  "(let r = hd (prepare_rows [merged_quote 0 ''straddle'' 6 (Some (1 / 50))])
    in p_opt_type r = ''straddle'' \<and> p_opt r = 1
       \<and> bsm_option_price (p_opt r) 100 95 (1 / 10) (1 / 5) (3 / 100)
           = Inr (spec_price PUT 100 95 (1 / 10) (1 / 5) (3 / 100)))"
proof -
  define rows where "rows = [merged_quote 0 ''straddle'' 6 (Some (1 / 50))]"
  define r where "r = hd (prepare_rows rows)"
  have gen: "prepare_data (\<lambda>shibor s. Inr rows) [''v''] (Inr rate_table) (''2015-02-09'', ''1'')
               = Inr [(Inr (prepare_rows rows), ''v'')]"
    by (simp add: prepare_data_def loc_pair_def rate_table_def)
  have mem: "(Inr (prepare_rows rows), ''v'') \<in> set [(Inr (prepare_rows rows), ''v'')]"
    by simp
  have r: "r \<in> set (prepare_rows rows)"
    by (simp add: r_def rows_def prepare_rows_def prepare_row_def merged_quote_def)
  have ty: "p_opt_type r = ''straddle''"
    by (simp add: r_def rows_def prepare_rows_def prepare_row_def merged_quote_def)
  have ne: "p_opt_type r \<noteq> ''call''"
    by (simp add: ty)
  from prepare_data_option_code [OF gen mem r, of 100 95 "1 / 10" "1 / 5" "3 / 100"] ne
  have "p_opt r = 1"
    and "bsm_option_price (p_opt r) 100 95 (1 / 10) (1 / 5) (3 / 100)
           = Inr (spec_price PUT 100 95 (1 / 10) (1 / 5) (3 / 100))"
    by blast+
  then show ?thesis
    using ty unfolding Let_def r_def rows_def by blast
qed

text \<open>
  C10. Two record sets whose daily average returns agree on every date but the last one
  have the same cumulative value series, the one built from the returns before the last
  date alone, and the metrics engine gives the same result on both: the return of the last
  date appears in no value of the series and in no metric of the report.
\<close>

theorem last_day_return_dropped:
  assumes "daily_returns pa sa = dd @ [(d, x)]" and "daily_returns pb sb = dd @ [(d, y)]"
  shows "cumulative_value c (map snd (daily_returns pa sa))
           = Fin 1 # map (\<lambda>v. Fin (v + 1)) (cumsum (map (\<lambda>v. v - c) (map snd dd)))
         \<and> cumulative_value c (map snd (daily_returns pb sb))
           = cumulative_value c (map snd (daily_returns pa sa))
         \<and> get_backtest_info parse (zip (map Stamp ts) (cumulative_value c (map snd (daily_returns pb sb))))
           = get_backtest_info parse (zip (map Stamp ts) (cumulative_value c (map snd (daily_returns pa sa))))"
proof -
  have a: "cumulative_value c (map snd (daily_returns pa sa))
             = Fin 1 # map (\<lambda>v. Fin (v + 1)) (cumsum (map (\<lambda>v. v - c) (map snd dd)))"
    by (simp add: assms(1) cumulative_value_eq)
  have b: "cumulative_value c (map snd (daily_returns pb sb))
             = Fin 1 # map (\<lambda>v. Fin (v + 1)) (cumsum (map (\<lambda>v. v - c) (map snd dd)))"
    by (simp add: assms(2) cumulative_value_eq)
  show ?thesis
    by (simp only: a b)
qed

lemma three_quotes_daily_long:
  "daily_returns three_quotes [1, - 1, 1] = [(0, 3 / 100), (86400000000000, 3 / 100)]"
  by (simp add: daily_returns_def three_quotes_def prepare_rows_def prepare_row_def
        merged_quote_def groupby_mean_def)

theorem last_day_return_dropped_witness:
  "cumulative_value (1 / 1000) (map snd (daily_returns three_quotes [1, - 1, 1]))
     = [Fin 1, Fin (1029 / 1000)]
   \<and> cumulative_value (1 / 1000) (map snd (daily_returns three_quotes [1, - 1, 0]))
     = [Fin 1, Fin (1029 / 1000)]
   \<and> get_backtest_info Some (zip (map Stamp [0, 86400000000000])
         (cumulative_value (1 / 1000) (map snd (daily_returns three_quotes [1, - 1, 0]))))
     = get_backtest_info (Some :: int \<Rightarrow> int option) (zip (map Stamp [0, 86400000000000])
         (cumulative_value (1 / 1000) (map snd (daily_returns three_quotes [1, - 1, 1]))))"
proof -
  have a: "daily_returns three_quotes [1, - 1, 1] = [(0, 3 / 100)] @ [(86400000000000, 3 / 100)]"
    by (simp add: three_quotes_daily_long)
  have b: "daily_returns three_quotes [1, - 1, 0] = [(0, 3 / 100)] @ [(86400000000000, 0)]"
    by (simp add: three_quotes_daily)
  from last_day_return_dropped [OF a b, where c = "1 / 1000"
      and parse = "Some :: int \<Rightarrow> int option" and ts = "[0, 86400000000000]"]
  show ?thesis
    by (simp add: cumsum_def)
qed


























end
